theory Spec2Isabelle
  imports Complex_Main "HOL-Library.Sublist"
begin

section \<open>Python values and files\<close>

text \<open>
  The tools of the repository exchange the values that \<^verbatim>\<open>json.load\<close> produces and
  \<^verbatim>\<open>json.dump\<close> accepts, and a file holds the value its text decodes to. A Python dict is
  an association list (the keys of a decoded object are distinct; \<open>map_of\<close> reads an
  entry). A Python float is modelled by the rational number it denotes: arithmetic on
  floats is exact here, and the non-finite floats are outside the model.
\<close>

datatype json =
    JNull
  | JBool bool
  | JInt int
  | JFloat rat
  | JStr string
  | JArr "json list"
  | JObj "(string \<times> json) list"

type_synonym dict = "(string \<times> json) list"

datatype err_kind =
  TypeError | AttributeError | KeyError | JSONDecodeError | FileNotFoundError | OSError

text \<open>An exception: its Python type and the text that \<^verbatim>\<open>str(e)\<close> gives.\<close>

datatype py_error = PyErr err_kind string

fun str_of_error :: "py_error \<Rightarrow> string" where
  "str_of_error (PyErr k m) = m"

fun type_name :: "json \<Rightarrow> string" where
  "type_name JNull = ''NoneType''"
| "type_name (JBool b) = ''bool''"
| "type_name (JInt n) = ''int''"
| "type_name (JFloat r) = ''float''"
| "type_name (JStr s) = ''str''"
| "type_name (JArr xs) = ''list''"
| "type_name (JObj d) = ''dict''"

definition quote :: "string \<Rightarrow> string" where
  "quote s = [CHR 0x27] @ s @ [CHR 0x27]"

definition no_attribute :: "json \<Rightarrow> string \<Rightarrow> py_error" where
  "no_attribute v a =
     PyErr AttributeError (quote (type_name v) @ '' object has no attribute '' @ quote a)"

text \<open>\<^verbatim>\<open>d.get(key, default)\<close> on a dict.\<close>

definition dict_get :: "dict \<Rightarrow> string \<Rightarrow> json \<Rightarrow> json" where
  "dict_get d k dflt = (case map_of d k of None \<Rightarrow> dflt | Some v \<Rightarrow> v)"

text \<open>\<^verbatim>\<open>v.get(key, default)\<close> on any value: only a dict has the method.\<close>

fun py_get :: "json \<Rightarrow> string \<Rightarrow> json \<Rightarrow> py_error + json" where
  "py_get (JObj d) k dflt = Inr (dict_get d k dflt)"
| "py_get v k dflt = Inl (no_attribute v ''get'')"

text \<open>\<^verbatim>\<open>str.upper\<close> and \<^verbatim>\<open>str.lower\<close> on the ASCII letters.\<close>

definition upper_char :: "char \<Rightarrow> char" where
  "upper_char c =
     (case map_of (zip ''abcdefghijklmnopqrstuvwxyz'' ''ABCDEFGHIJKLMNOPQRSTUVWXYZ'') c of
        None \<Rightarrow> c
      | Some u \<Rightarrow> u)"

definition lower_char :: "char \<Rightarrow> char" where
  "lower_char c =
     (case map_of (zip ''ABCDEFGHIJKLMNOPQRSTUVWXYZ'' ''abcdefghijklmnopqrstuvwxyz'') c of
        None \<Rightarrow> c
      | Some l \<Rightarrow> l)"

definition upper :: "string \<Rightarrow> string" where
  "upper s = map upper_char s"

definition lower :: "string \<Rightarrow> string" where
  "lower s = map lower_char s"

text \<open>
  A file of the data directory: absent, present but not openable, present with text that
  is not JSON, or present with a JSON document. The two messages are the ones the raised
  exception carries.
\<close>

datatype file_state =
    Missing
  | Unreadable string
  | Unparseable string
  | Content json

type_synonym fs = "string \<Rightarrow> file_state"

definition actions_file :: string where
  "actions_file = ''data/historical_actions.json''"

definition patterns_file :: string where
  "patterns_file = ''data/historical_customer_data.json''"

text \<open>\<^verbatim>\<open>with open(path, 'r') as f: json.load(f)\<close>.\<close>

definition read_json :: "fs \<Rightarrow> string \<Rightarrow> py_error + json" where
  "read_json files path =
     (case files path of
        Missing \<Rightarrow> Inl (PyErr FileNotFoundError
          (''[Errno 2] No such file or directory: '' @ quote path))
      | Unreadable m \<Rightarrow> Inl (PyErr OSError m)
      | Unparseable m \<Rightarrow> Inl (PyErr JSONDecodeError m)
      | Content v \<Rightarrow> Inr v)"

text \<open>
  What the operating system does with one \<^verbatim>\<open>open(path, 'w')\<close> followed by
  \<^verbatim>\<open>json.dump\<close>: it succeeds, the open fails (the file is untouched), or the dump fails
  after the open has truncated the file.
\<close>

datatype write_fault = NoFault | OpenFault string | DumpFault string

definition write_json :: "write_fault \<Rightarrow> string \<Rightarrow> json \<Rightarrow> fs \<Rightarrow> (py_error + unit) \<times> fs" where
  "write_json fault path v files =
     (case fault of
        NoFault \<Rightarrow> (Inr (), files(path := Content v))
      | OpenFault m \<Rightarrow> (Inl (PyErr OSError m), files)
      | DumpFault m \<Rightarrow> (Inl (PyErr OSError m), files(path := Unparseable ''truncated'')))"

section \<open>tools/results_tracker_tool.py\<close>

definition with_default :: "string option \<Rightarrow> string \<Rightarrow> string" where
  "with_default a d = (case a of None \<Rightarrow> d | Some s \<Rightarrow> s)"

text \<open>The record that \<^verbatim>\<open>record_result\<close> prepares; \<open>now\<close> is \<^verbatim>\<open>datetime.now().isoformat()\<close>.\<close>

definition action_record ::
  "string \<Rightarrow> string \<Rightarrow> string \<Rightarrow> string \<Rightarrow> string \<Rightarrow> json \<Rightarrow> json \<Rightarrow> string \<Rightarrow> string \<Rightarrow> dict" where
  "action_record now customer_id action_type action_status seg predicted_roi estimated_cost
      channel scenario =
     [(''timestamp'', JStr now),
      (''customer_id'', JStr customer_id),
      (''customer_segment'', JStr seg),
      (''scenario_type'', JStr scenario),
      (''action_type'', JStr action_type),
      (''channel'', JStr channel),
      (''estimated_cost'', estimated_cost),
      (''predicted_roi'', predicted_roi),
      (''action_status'', JStr action_status),
      (''approved_by'', JStr (if action_status = ''scheduled'' then ''human'' else ''rejected''))]"

text \<open>\<^verbatim>\<open>all_actions.append(action_record)\<close>: only a list has the method.\<close>

fun py_append :: "json \<Rightarrow> json \<Rightarrow> py_error + json list" where
  "py_append (JArr xs) x = Inr (xs @ [x])"
| "py_append v x = Inl (no_attribute v ''append'')"

text \<open>The body of the \<^verbatim>\<open>try\<close> block: load or start the log, append, save, report.\<close>

definition record_result_try ::
  "write_fault \<Rightarrow> dict \<Rightarrow> string \<Rightarrow> string \<Rightarrow> string \<Rightarrow> fs \<Rightarrow> (py_error + dict) \<times> fs" where
  "record_result_try fault rec action_status seg scenario files =
     (case (if files actions_file \<noteq> Missing then read_json files actions_file
            else Inr (JArr [])) of
        Inl e \<Rightarrow> (Inl e, files)
      | Inr loaded \<Rightarrow>
          (case py_append loaded (JObj rec) of
             Inl e \<Rightarrow> (Inl e, files)
           | Inr all_actions \<Rightarrow>
               (case write_json fault actions_file (JArr all_actions) files of
                  (Inl e, files') \<Rightarrow> (Inl e, files')
                | (Inr u, files') \<Rightarrow>
                    (Inr [(''status'', JStr ''success''),
                          (''message'', JStr (''Action recorded as '' @ upper action_status)),
                          (''recorded_data'', JObj rec),
                          (''total_historical_actions'', JInt (int (length all_actions))),
                          (''learning_impact'', JStr
                             (''This data will improve future predictions for '' @ seg
                              @ '' customers in '' @ scenario @ '' scenarios''))],
                     files'))))"

text \<open>
  \<^verbatim>\<open>record_result\<close>: the record is built first, the \<^verbatim>\<open>try\<close> block runs, and
  \<^verbatim>\<open>except Exception as e\<close> turns whatever it raised into the error dictionary. The
  result is a sum so that an exception that escaped would be visible as \<open>Inl\<close>.
\<close>

definition record_result ::
  "string \<Rightarrow> write_fault \<Rightarrow> string \<Rightarrow> string \<Rightarrow> string \<Rightarrow> string \<Rightarrow> json \<Rightarrow> json
     \<Rightarrow> string option \<Rightarrow> string option \<Rightarrow> fs \<Rightarrow> (py_error + dict) \<times> fs" where
  "record_result now fault customer_id action_type action_status seg predicted_roi estimated_cost
      channel scenario files =
     (let ch = with_default channel ''email'';
          sc = with_default scenario ''general'';
          rec = action_record now customer_id action_type action_status seg predicted_roi
                  estimated_cost ch sc
      in case record_result_try fault rec action_status seg sc files of
           (Inr d, files') \<Rightarrow> (Inr d, files')
         | (Inl e, files') \<Rightarrow>
             (Inr [(''status'', JStr ''error''),
                   (''message'', JStr (''Failed to record action: '' @ str_of_error e))],
              files'))"

text \<open>The log a call starts from: the list in the file, or the empty list when there is no file.\<close>

definition prior_log :: "fs \<Rightarrow> json list option" where
  "prior_log files =
     (case files actions_file of
        Missing \<Rightarrow> Some []
      | Content (JArr xs) \<Rightarrow> Some xs
      | _ \<Rightarrow> None)"

definition succeeded :: "(py_error + dict) \<Rightarrow> bool" where
  "succeeded r = (case r of Inr d \<Rightarrow> map_of d ''status'' = Some (JStr ''success'') | Inl e \<Rightarrow> False)"

section \<open>tools/historical_patterns_tool.py\<close>

text \<open>\<^verbatim>\<open>key in container\<close> for a string key.\<close>

fun py_in :: "string \<Rightarrow> json \<Rightarrow> py_error + bool" where
  "py_in k (JObj d) = Inr (k \<in> set (map fst d))"
| "py_in k (JArr xs) = Inr (JStr k \<in> set xs)"
| "py_in k (JStr s) = Inr (sublist k s)"
| "py_in k v =
     Inl (PyErr TypeError (''argument of type '' @ quote (type_name v) @ '' is not iterable''))"

text \<open>\<^verbatim>\<open>container[key]\<close> for a string key.\<close>

fun py_index :: "json \<Rightarrow> string \<Rightarrow> py_error + json" where
  "py_index (JObj d) k =
     (case map_of d k of None \<Rightarrow> Inl (PyErr KeyError (quote k)) | Some v \<Rightarrow> Inr v)"
| "py_index (JArr xs) k =
     Inl (PyErr TypeError ''list indices must be integers or slices, not str'')"
| "py_index (JStr s) k = Inl (PyErr TypeError ''string indices must be integers, not str'')"
| "py_index v k =
     Inl (PyErr TypeError (quote (type_name v) @ '' object is not subscriptable''))"

text \<open>\<^verbatim>\<open>list(container.keys())\<close>.\<close>

fun py_keys :: "json \<Rightarrow> py_error + json list" where
  "py_keys (JObj d) = Inr (map (\<lambda>kv. JStr (fst kv)) d)"
| "py_keys v = Inl (no_attribute v ''keys'')"

text \<open>The body of the \<^verbatim>\<open>try\<close> block; \<^verbatim>\<open>if segment:\<close> holds for a non-empty string.\<close>

definition query_try :: "fs \<Rightarrow> string option \<Rightarrow> string \<Rightarrow> py_error + json" where
  "query_try files seg data_type =
     (case read_json files patterns_file of
        Inl e \<Rightarrow> Inl e
      | Inr historical_data \<Rightarrow>
          (case seg of
             Some (c # cs) \<Rightarrow>
               (case py_get historical_data ''customer_segments'' (JObj []) of
                  Inl e \<Rightarrow> Inl e
                | Inr segments \<Rightarrow>
                    (case py_in (c # cs) segments of
                       Inl e \<Rightarrow> Inl e
                     | Inr True \<Rightarrow>
                         (case py_index segments (c # cs) of
                            Inl e \<Rightarrow> Inl e
                          | Inr v \<Rightarrow> Inr (JObj [(''segment'', JStr (c # cs)), (''data'', v)]))
                     | Inr False \<Rightarrow>
                         (case py_keys segments of
                            Inl e \<Rightarrow> Inl e
                          | Inr ks \<Rightarrow>
                              Inr (JObj [(''error'', JStr (''Segment '' @ quote (c # cs) @ '' not found'')),
                                         (''available_segments'', JArr ks)]))))
           | _ \<Rightarrow>
               if data_type = ''segments'' then
                 (case py_get historical_data ''customer_segments'' (JObj []) of
                    Inl e \<Rightarrow> Inl e
                  | Inr v \<Rightarrow> Inr (JObj [(''customer_segments'', v)]))
               else if data_type = ''behavioral_patterns'' then
                 (case py_get historical_data ''behavioral_patterns'' (JObj []) of
                    Inl e \<Rightarrow> Inl e
                  | Inr v \<Rightarrow> Inr (JObj [(''behavioral_patterns'', v)]))
               else if data_type = ''product_insights'' then
                 (case py_get historical_data ''product_category_insights'' (JObj []) of
                    Inl e \<Rightarrow> Inl e
                  | Inr v \<Rightarrow> Inr (JObj [(''product_category_insights'', v)]))
               else Inr historical_data))"

text \<open>
  \<^verbatim>\<open>query_historical_patterns\<close>: the two \<^verbatim>\<open>except\<close> clauses answer a missing file and
  undecodable text with an error dictionary; any other exception leaves the function.
\<close>

definition query_historical_patterns :: "fs \<Rightarrow> string option \<Rightarrow> string \<Rightarrow> py_error + json" where
  "query_historical_patterns files seg data_type =
     (case query_try files seg data_type of
        Inl (PyErr FileNotFoundError m) \<Rightarrow>
          Inr (JObj [(''error'', JStr ''Historical data file not found'')])
      | Inl (PyErr JSONDecodeError m) \<Rightarrow>
          Inr (JObj [(''error'', JStr ''Error parsing historical data'')])
      | r \<Rightarrow> r)"

text \<open>
  The argument of \<^verbatim>\<open>find_similar_customer_segment\<close>, by what \<^verbatim>\<open>json.loads\<close> makes of it:
  text that decodes to a value, text that does not decode (JSONDecodeError), a dict passed
  in place of the text, or another object (TypeError in both cases).
\<close>

datatype json_arg = Decodes json | Undecodable | PassedDict dict | PassedOther

fun load_profile :: "json_arg \<Rightarrow> json" where
  "load_profile (Decodes v) = v"
| "load_profile Undecodable = JObj []"
| "load_profile (PassedDict d) = JObj d"
| "load_profile PassedOther = JObj []"

text \<open>The number a value stands for in a comparison; \<^verbatim>\<open>bool\<close> is a subtype of \<^verbatim>\<open>int\<close>.\<close>

fun num_value :: "json \<Rightarrow> rat option" where
  "num_value (JBool b) = Some (if b then 1 else 0)"
| "num_value (JInt n) = Some (of_int n)"
| "num_value (JFloat r) = Some r"
| "num_value v = None"

definition not_supported :: "string \<Rightarrow> json \<Rightarrow> string \<Rightarrow> py_error" where
  "not_supported opr v t =
     PyErr TypeError (quote opr @ '' not supported between instances of ''
       @ quote (type_name v) @ '' and '' @ quote t)"

text \<open>\<^verbatim>\<open>v > k\<close>, \<^verbatim>\<open>v >= k\<close>, \<^verbatim>\<open>v < k\<close> and \<^verbatim>\<open>v == k\<close> for an integer literal \<open>k\<close>.\<close>

definition py_gt :: "json \<Rightarrow> int \<Rightarrow> py_error + bool" where
  "py_gt v k =
     (case num_value v of None \<Rightarrow> Inl (not_supported ''>'' v ''int'') | Some r \<Rightarrow> Inr (r > of_int k))"

definition py_ge :: "json \<Rightarrow> int \<Rightarrow> py_error + bool" where
  "py_ge v k =
     (case num_value v of None \<Rightarrow> Inl (not_supported ''>='' v ''int'') | Some r \<Rightarrow> Inr (r \<ge> of_int k))"

definition py_lt :: "json \<Rightarrow> int \<Rightarrow> py_error + bool" where
  "py_lt v k =
     (case num_value v of None \<Rightarrow> Inl (not_supported ''<'' v ''int'') | Some r \<Rightarrow> Inr (r < of_int k))"

definition py_eq_int :: "json \<Rightarrow> int \<Rightarrow> bool" where
  "py_eq_int v k = (case num_value v of None \<Rightarrow> False | Some r \<Rightarrow> r = of_int k)"

text \<open>The \<^verbatim>\<open>if\<close>/\<^verbatim>\<open>elif\<close> chain under the comment "Determine segment".\<close>

definition determine_segment :: "json \<Rightarrow> json \<Rightarrow> json \<Rightarrow> json \<Rightarrow> json \<Rightarrow> py_error + string" where
  "determine_segment churn_risk cart_status seg total_orders days_since_purchase =
     (if cart_status = JStr ''abandoned'' then Inr ''price_sensitive_cart_abandoners''
      else if seg = JStr ''vip'' then Inr ''vip_customers''
      else
        (case (if churn_risk = JStr ''high'' then Inr True else py_gt days_since_purchase 60) of
           Inl e \<Rightarrow> Inl e
         | Inr True \<Rightarrow> Inr ''high_churn_risk''
         | Inr False \<Rightarrow>
             if py_eq_int total_orders 0 then Inr ''first_time_browsers''
             else
               (case py_ge total_orders 3 of
                  Inl e \<Rightarrow> Inl e
                | Inr True \<Rightarrow> Inr ''repeat_buyers''
                | Inr False \<Rightarrow> Inr ''first_time_browsers'')))"

definition find_similar_customer_segment :: "fs \<Rightarrow> json_arg \<Rightarrow> py_error + dict" where
  "find_similar_customer_segment files customer_profile_json =
     (let customer_profile = load_profile customer_profile_json in
      case py_get customer_profile ''churn_risk'' (JStr ''low'') of Inl e \<Rightarrow> Inl e
      | Inr churn_risk \<Rightarrow>
      case py_get customer_profile ''cart_status'' (JStr ''empty'') of Inl e \<Rightarrow> Inl e
      | Inr cart_status \<Rightarrow>
      case py_get customer_profile ''segment'' (JStr ''medium_value'') of Inl e \<Rightarrow> Inl e
      | Inr seg \<Rightarrow>
      case py_get customer_profile ''total_orders'' (JInt 0) of Inl e \<Rightarrow> Inl e
      | Inr total_orders \<Rightarrow>
      case py_get customer_profile ''days_since_last_purchase'' (JInt 0) of Inl e \<Rightarrow> Inl e
      | Inr days_since_purchase \<Rightarrow>
      case determine_segment churn_risk cart_status seg total_orders days_since_purchase of
        Inl e \<Rightarrow> Inl e
      | Inr matched_segment \<Rightarrow>
      case query_historical_patterns files (Some matched_segment) ''all'' of Inl e \<Rightarrow> Inl e
      | Inr result \<Rightarrow>
      case py_get result ''data'' (JObj []) of Inl e \<Rightarrow> Inl e
      | Inr segment_data \<Rightarrow>
          Inr [(''matched_segment'', JStr matched_segment),
               (''segment_data'', segment_data),
               (''confidence'', JFloat (17 / 20))])"

text \<open>What a \<^verbatim>\<open>for\<close> loop iterates over.\<close>

fun py_iter :: "json \<Rightarrow> py_error + json list" where
  "py_iter (JArr xs) = Inr xs"
| "py_iter (JObj d) = Inr (map (\<lambda>kv. JStr (fst kv)) d)"
| "py_iter (JStr s) = Inr (map (\<lambda>c. JStr [c]) s)"
| "py_iter v = Inl (PyErr TypeError (quote (type_name v) @ '' object is not iterable''))"

fun py_lower :: "json \<Rightarrow> py_error + string" where
  "py_lower (JStr s) = Inr (lower s)"
| "py_lower v = Inl (no_attribute v ''lower'')"

text \<open>The loop of \<^verbatim>\<open>get_action_success_rate\<close> over the successful actions.\<close>

fun first_matching_rate :: "string \<Rightarrow> json list \<Rightarrow> py_error + json" where
  "first_matching_rate action_type [] = Inr (JFloat (1 / 2))"
| "first_matching_rate action_type (action # rest) =
     (case py_get action ''action'' (JStr []) of
        Inl e \<Rightarrow> Inl e
      | Inr nm \<Rightarrow>
          (case py_lower nm of
             Inl e \<Rightarrow> Inl e
           | Inr lowered \<Rightarrow>
               if sublist (lower action_type) lowered
               then py_get action ''success_rate'' (JFloat (1 / 2))
               else first_matching_rate action_type rest))"

definition get_action_success_rate :: "fs \<Rightarrow> string \<Rightarrow> string \<Rightarrow> py_error + json" where
  "get_action_success_rate files action_type seg =
     (case query_historical_patterns files (Some seg) ''all'' of Inl e \<Rightarrow> Inl e
      | Inr segment_data \<Rightarrow>
      case py_in ''error'' segment_data of Inl e \<Rightarrow> Inl e
      | Inr True \<Rightarrow> Inr (JFloat (1 / 2))
      | Inr False \<Rightarrow>
      case py_get segment_data ''data'' (JObj []) of Inl e \<Rightarrow> Inl e
      | Inr data \<Rightarrow>
      case py_get data ''successful_actions'' (JArr []) of Inl e \<Rightarrow> Inl e
      | Inr successful_actions \<Rightarrow>
      case py_iter successful_actions of Inl e \<Rightarrow> Inl e
      | Inr actions \<Rightarrow> first_matching_rate action_type actions)"

section \<open>tools/analytics_tool.py\<close>

text \<open>Python's \<^verbatim>\<open>==\<close> on decoded values: numbers by what they denote, containers by content.\<close>

fun py_eq :: "json \<Rightarrow> json \<Rightarrow> bool" where
  "py_eq JNull JNull = True"
| "py_eq (JStr s) (JStr t) = (s = t)"
| "py_eq (JArr xs) (JArr ys) = list_all2 py_eq xs ys"
| "py_eq (JObj d) (JObj e) =
     (length d = length e \<and>
      list_all (\<lambda>kv. case map_of e (fst kv) of None \<Rightarrow> False | Some w \<Rightarrow> py_eq (snd kv) w) d)"
| "py_eq v w =
     (case (num_value v, num_value w) of (Some r, Some q) \<Rightarrow> r = q | _ \<Rightarrow> False)"

text \<open>Truth value testing.\<close>

fun py_truthy :: "json \<Rightarrow> bool" where
  "py_truthy JNull = False"
| "py_truthy (JBool b) = b"
| "py_truthy (JInt n) = (n \<noteq> 0)"
| "py_truthy (JFloat r) = (r \<noteq> 0)"
| "py_truthy (JStr s) = (s \<noteq> [])"
| "py_truthy (JArr xs) = (xs \<noteq> [])"
| "py_truthy (JObj d) = (d \<noteq> [])"

text \<open>A Python number: an \<^verbatim>\<open>int\<close> or a \<^verbatim>\<open>float\<close>.\<close>

datatype pynum = IntNum int | FloatNum rat

fun num_val :: "pynum \<Rightarrow> rat" where
  "num_val (IntNum n) = of_int n"
| "num_val (FloatNum r) = r"

fun to_json :: "pynum \<Rightarrow> json" where
  "to_json (IntNum n) = JInt n"
| "to_json (FloatNum r) = JFloat r"

fun as_num :: "json \<Rightarrow> pynum option" where
  "as_num (JBool b) = Some (IntNum (if b then 1 else 0))"
| "as_num (JInt n) = Some (IntNum n)"
| "as_num (JFloat r) = Some (FloatNum r)"
| "as_num v = None"

text \<open>\<^verbatim>\<open>a + b\<close> on numbers: an \<^verbatim>\<open>int\<close> only when both are.\<close>

fun num_add :: "pynum \<Rightarrow> pynum \<Rightarrow> pynum" where
  "num_add (IntNum a) (IntNum b) = IntNum (a + b)"
| "num_add a b = FloatNum (num_val a + num_val b)"

text \<open>\<^verbatim>\<open>tot + v\<close> for a running total: anything but a number on the right is a TypeError.\<close>

definition add_json :: "pynum \<Rightarrow> json \<Rightarrow> py_error + pynum" where
  "add_json tot v =
     (case as_num v of
        None \<Rightarrow> Inl (PyErr TypeError
          (''unsupported operand type(s) for +: '' @ quote (type_name (to_json tot))
           @ '' and '' @ quote (type_name v)))
      | Some n \<Rightarrow> Inr (num_add tot n))"

text \<open>\<^verbatim>\<open>v / k\<close> for a positive integer \<open>k\<close>: true division, a float.\<close>

definition py_truediv :: "json \<Rightarrow> int \<Rightarrow> py_error + pynum" where
  "py_truediv v k =
     (case as_num v of
        None \<Rightarrow> Inl (PyErr TypeError
          (''unsupported operand type(s) for /: '' @ quote (type_name v) @ '' and '' @ quote ''int''))
      | Some n \<Rightarrow> Inr (FloatNum (num_val n / of_int k)))"

text \<open>\<^verbatim>\<open>max(k, x)\<close> and \<^verbatim>\<open>min(k, x)\<close> for an integer literal \<open>k\<close>: the first argument wins a tie.\<close>

definition py_max :: "int \<Rightarrow> pynum \<Rightarrow> pynum" where
  "py_max k x = (if num_val x > of_int k then x else IntNum k)"

definition py_min :: "int \<Rightarrow> pynum \<Rightarrow> pynum" where
  "py_min k x = (if num_val x < of_int k then x else IntNum k)"

text \<open>Rounding to the nearest integer, ties to the even one, and \<^verbatim>\<open>round(x, n)\<close>.\<close>

definition round_half_even :: "rat \<Rightarrow> int" where
  "round_half_even x =
     (let f = \<lfloor>x\<rfloor>; d = x - of_int f
      in if d < 1 / 2 then f else if d > 1 / 2 then f + 1 else if even f then f else f + 1)"

fun py_round :: "pynum \<Rightarrow> nat \<Rightarrow> pynum" where
  "py_round (IntNum i) n = IntNum i"
| "py_round (FloatNum r) n = FloatNum (of_int (round_half_even (r * 10 ^ n)) / 10 ^ n)"

text \<open>\<^verbatim>\<open>[a for a in items if a.get(key) == v]\<close>.\<close>

fun filter_by_key :: "string \<Rightarrow> json \<Rightarrow> json list \<Rightarrow> py_error + json list" where
  "filter_by_key k v [] = Inr []"
| "filter_by_key k v (a # rest) =
     (case py_get a k JNull of
        Inl e \<Rightarrow> Inl e
      | Inr w \<Rightarrow>
          (case filter_by_key k v rest of
             Inl e \<Rightarrow> Inl e
           | Inr kept \<Rightarrow> Inr (if py_eq w v then a # kept else kept)))"

definition get_historical_actions :: "fs \<Rightarrow> string option \<Rightarrow> py_error + json" where
  "get_historical_actions files customer_id =
     (case (case read_json files actions_file of
              Inl e \<Rightarrow> Inl e
            | Inr actions \<Rightarrow>
                (case customer_id of
                   Some (c # cs) \<Rightarrow>
                     (case py_iter actions of
                        Inl e \<Rightarrow> Inl e
                      | Inr items \<Rightarrow>
                          (case filter_by_key ''customer_id'' (JStr (c # cs)) items of
                             Inl e \<Rightarrow> Inl e
                           | Inr kept \<Rightarrow> Inr (JArr kept)))
                 | _ \<Rightarrow> Inr actions)) of
        Inl (PyErr FileNotFoundError m) \<Rightarrow> Inr (JArr [])
      | r \<Rightarrow> r)"

text \<open>\<^verbatim>\<open>sum(1 for a in items if a.get(key, False))\<close>.\<close>

fun count_truthy :: "string \<Rightarrow> json list \<Rightarrow> py_error + nat" where
  "count_truthy k [] = Inr 0"
| "count_truthy k (a # rest) =
     (case py_get a k (JBool False) of
        Inl e \<Rightarrow> Inl e
      | Inr w \<Rightarrow>
          (case count_truthy k rest of
             Inl e \<Rightarrow> Inl e
           | Inr n \<Rightarrow> Inr (if py_truthy w then Suc n else n)))"

text \<open>\<^verbatim>\<open>sum(a.get(key, 0) for a in items)\<close>, from the running total.\<close>

fun sum_key :: "string \<Rightarrow> pynum \<Rightarrow> json list \<Rightarrow> py_error + pynum" where
  "sum_key k tot [] = Inr tot"
| "sum_key k tot (a # rest) =
     (case py_get a k (JInt 0) of
        Inl e \<Rightarrow> Inl e
      | Inr w \<Rightarrow>
          (case add_json tot w of
             Inl e \<Rightarrow> Inl e
           | Inr tot' \<Rightarrow> sum_key k tot' rest))"

text \<open>\<^verbatim>\<open>round(count / total * 100, 2)\<close>.\<close>

definition percentage :: "nat \<Rightarrow> nat \<Rightarrow> json" where
  "percentage n tot = to_json (py_round (FloatNum (of_nat n / of_nat tot * 100)) 2)"

definition get_action_performance_by_type :: "fs \<Rightarrow> json \<Rightarrow> py_error + dict" where
  "get_action_performance_by_type files action_type =
     (case get_historical_actions files None of Inl e \<Rightarrow> Inl e
      | Inr actions \<Rightarrow>
      case py_iter actions of Inl e \<Rightarrow> Inl e
      | Inr items \<Rightarrow>
      case filter_by_key ''action_type'' action_type items of Inl e \<Rightarrow> Inl e
      | Inr filtered \<Rightarrow>
          if filtered = [] then
            Inr [(''action_type'', action_type),
                 (''total_actions'', JInt 0),
                 (''avg_roi'', JInt 0),
                 (''conversion_rate'', JInt 0),
                 (''open_rate'', JInt 0),
                 (''click_rate'', JInt 0)]
          else
            (let tot = length filtered in
             case count_truthy ''converted'' filtered of Inl e \<Rightarrow> Inl e
             | Inr conversions \<Rightarrow>
             case count_truthy ''opened'' filtered of Inl e \<Rightarrow> Inl e
             | Inr opens \<Rightarrow>
             case count_truthy ''clicked'' filtered of Inl e \<Rightarrow> Inl e
             | Inr clicks \<Rightarrow>
             case sum_key ''roi'' (IntNum 0) filtered of Inl e \<Rightarrow> Inl e
             | Inr roi_sum \<Rightarrow>
                 Inr [(''action_type'', action_type),
                      (''total_actions'', JInt (int tot)),
                      (''avg_roi'', to_json (py_round (FloatNum (num_val roi_sum / of_nat tot)) 2)),
                      (''conversion_rate'', percentage conversions tot),
                      (''open_rate'', percentage opens tot),
                      (''click_rate'', percentage clicks tot)]))"

text \<open>The cost and channel adjustments of \<^verbatim>\<open>score_action\<close>, on the base score.\<close>

definition adjust_for_cost :: "json \<Rightarrow> pynum \<Rightarrow> py_error + pynum" where
  "adjust_for_cost estimated_cost score =
     (case py_lt estimated_cost 50 of
        Inl e \<Rightarrow> Inl e
      | Inr True \<Rightarrow> Inr (num_add score (IntNum 1))
      | Inr False \<Rightarrow>
          (case py_gt estimated_cost 500 of
             Inl e \<Rightarrow> Inl e
           | Inr True \<Rightarrow> Inr (num_add score (IntNum (- 1)))
           | Inr False \<Rightarrow> Inr score))"

definition adjust_for_channel :: "json \<Rightarrow> pynum \<Rightarrow> pynum" where
  "adjust_for_channel channel score =
     (if py_eq channel (JStr ''email'') then num_add score (FloatNum (1 / 2)) else score)"

definition score_action :: "fs \<Rightarrow> json \<Rightarrow> py_error + dict" where
  "score_action files action =
     (case py_get action ''action_type'' (JStr ''unknown'') of Inl e \<Rightarrow> Inl e
      | Inr action_type \<Rightarrow>
      case py_get action ''channel'' (JStr ''email'') of Inl e \<Rightarrow> Inl e
      | Inr channel \<Rightarrow>
      case py_get action ''estimated_cost'' (JInt 0) of Inl e \<Rightarrow> Inl e
      | Inr estimated_cost \<Rightarrow>
      case get_action_performance_by_type files action_type of Inl e \<Rightarrow> Inl e
      | Inr perf \<Rightarrow>
      let conversion_rate = dict_get perf ''conversion_rate'' (JInt 0);
          avg_roi = dict_get perf ''avg_roi'' (JInt 0)
      in
      case py_truediv avg_roi 2 of Inl e \<Rightarrow> Inl e
      | Inr half \<Rightarrow>
      case adjust_for_cost estimated_cost (py_min 10 (py_max 1 half)) of Inl e \<Rightarrow> Inl e
      | Inr score \<Rightarrow>
      case py_get action ''action_id'' JNull of Inl e \<Rightarrow> Inl e
      | Inr action_id \<Rightarrow>
          Inr [(''action_id'', action_id),
               (''roi_score'',
                  to_json (py_round (py_min 10 (py_max 1 (adjust_for_channel channel score))) 1)),
               (''predicted_roi'', avg_roi),
               (''conversion_probability'', conversion_rate),
               (''confidence'', JStr ''medium'')])"

section \<open>agents/agent_8_approval_adk.py: the approval tool\<close>

text \<open>
  The confirmation object and the tool context of the agent framework, as far as the tool
  uses them: the recorded decision, if any, and the confirmation requests issued through
  the context. Standard output is the list of the texts printed.
\<close>

record tool_confirmation =
  hint :: string
  confirmed :: bool
  payload :: json

record tool_context =
  tool_confirmation :: "tool_confirmation option"
  requested_confirmations :: "tool_confirmation list"

text \<open>\<^verbatim>\<open>tool_context.request_confirmation(hint=..., payload=...)\<close>.\<close>

definition request_confirmation :: "string \<Rightarrow> json \<Rightarrow> tool_context \<Rightarrow> tool_context" where
  "request_confirmation h p ctx =
     ctx\<lparr>requested_confirmations :=
           requested_confirmations ctx @ [\<lparr>hint = h, confirmed = False, payload = p\<rparr>]\<rparr>"

definition rule_line :: string where
  "rule_line = replicate 60 (CHR ''='')"

definition request_human_approval ::
  "string \<Rightarrow> string \<Rightarrow> string \<Rightarrow> tool_context \<times> string list
     \<Rightarrow> dict \<times> tool_context \<times> string list" where
  "request_human_approval action_summary estimated_cost expected_roi st =
     (case st of (ctx, out) \<Rightarrow>
        (case tool_confirmation ctx of
           None \<Rightarrow>
             ([(''status'', JStr ''pending''), (''message'', JStr ''Waiting for human approval'')],
              request_confirmation ''Approve marketing action?''
                (JObj [(''action'', JStr action_summary),
                       (''cost'', JStr estimated_cost),
                       (''roi'', JStr expected_roi)]) ctx,
              out @ [CHR 0x0A # rule_line,
                     ''HUMAN APPROVAL REQUIRED'',
                     rule_line,
                     ''Action: '' @ action_summary,
                     ''Cost: '' @ estimated_cost,
                     ''Expected ROI: '' @ expected_roi,
                     rule_line @ [CHR 0x0A]])
         | Some decision \<Rightarrow>
             if confirmed decision then
               ([(''status'', JStr ''approved''),
                 (''message'', JStr ''Action approved by human reviewer''),
                 (''approved'', JBool True)], ctx, out)
             else
               ([(''status'', JStr ''rejected''),
                 (''message'', JStr ''Action rejected by human reviewer''),
                 (''approved'', JBool False)], ctx, out)))"

section \<open>agents/*.py and coordinator_full.py: the agents and the pipeline\<close>

text \<open>
  An agent definition without its prompt text: name, model with its retry options, output
  key and the names of its tools. A pipeline node is an agent, a sequential composite or a
  parallel composite (name, sub-agents, description).
\<close>

record http_retry_options =
  attempts :: int
  exp_base :: int
  initial_delay :: int
  http_status_codes :: "int list"

record gemini =
  model_id :: string
  retry_options :: http_retry_options

record llm_agent =
  agent_name :: string
  llm :: gemini
  output_key :: string
  tools :: "string list"

datatype agent =
    Agent llm_agent
  | SequentialAgent string "agent list" string
  | ParallelAgent string "agent list" string

text \<open>\<^verbatim>\<open>agents/agent_0_proxy_adk.py\<close>\<close>

definition proxy_retry_config :: http_retry_options where
  "proxy_retry_config =
     \<lparr>attempts = 5, exp_base = 7, initial_delay = 1, http_status_codes = [429, 500, 503, 504]\<rparr>"

definition proxy_agent :: llm_agent where
  "proxy_agent =
     \<lparr>agent_name = ''ProxyCustomerAgent'',
      llm = \<lparr>model_id = ''gemini-2.5-flash-lite'', retry_options = proxy_retry_config\<rparr>,
      output_key = ''generated_customer_profile'',
      tools = []\<rparr>"

text \<open>\<^verbatim>\<open>agents/agent_1_profiler_adk.py\<close>\<close>

definition profiler_retry_config :: http_retry_options where
  "profiler_retry_config =
     \<lparr>attempts = 5, exp_base = 7, initial_delay = 1, http_status_codes = [429, 500, 503, 504]\<rparr>"

definition customer_profiler_agent :: llm_agent where
  "customer_profiler_agent =
     \<lparr>agent_name = ''CustomerProfilerAgent'',
      llm = \<lparr>model_id = ''gemini-2.5-flash-lite'', retry_options = profiler_retry_config\<rparr>,
      output_key = ''customer_analysis'',
      tools = []\<rparr>"

text \<open>\<^verbatim>\<open>agents/agent_2_pattern_adk.py\<close>\<close>

definition pattern_retry_config :: http_retry_options where
  "pattern_retry_config =
     \<lparr>attempts = 5, exp_base = 7, initial_delay = 1, http_status_codes = [429, 500, 503, 504]\<rparr>"

definition pattern_matcher_agent :: llm_agent where
  "pattern_matcher_agent =
     \<lparr>agent_name = ''PatternMatcherAgent'',
      llm = \<lparr>model_id = ''gemini-2.5-flash-lite'', retry_options = pattern_retry_config\<rparr>,
      output_key = ''historical_match'',
      tools = [''query_historical_patterns'', ''find_similar_customer_segment'']\<rparr>"

text \<open>\<^verbatim>\<open>agents/agent_3_generator_adk.py\<close>\<close>

definition generator_retry_config :: http_retry_options where
  "generator_retry_config =
     \<lparr>attempts = 5, exp_base = 7, initial_delay = 1, http_status_codes = [429, 500, 503, 504]\<rparr>"

definition action_generator_agent :: llm_agent where
  "action_generator_agent =
     \<lparr>agent_name = ''ActionGeneratorAgent'',
      llm = \<lparr>model_id = ''gemini-2.5-flash-lite'', retry_options = generator_retry_config\<rparr>,
      output_key = ''generated_actions'',
      tools = []\<rparr>"

text \<open>\<^verbatim>\<open>agents/agent_4_validator_adk.py\<close>\<close>

definition validator_retry_config :: http_retry_options where
  "validator_retry_config =
     \<lparr>attempts = 5, exp_base = 7, initial_delay = 1, http_status_codes = [429, 500, 503, 504]\<rparr>"

definition validator_agent :: llm_agent where
  "validator_agent =
     \<lparr>agent_name = ''ValidatorAgent'',
      llm = \<lparr>model_id = ''gemini-2.5-flash-lite'', retry_options = validator_retry_config\<rparr>,
      output_key = ''validation_results'',
      tools = []\<rparr>"

text \<open>\<^verbatim>\<open>agents/agent_5_scorer_adk.py\<close>\<close>

definition scorer_retry_config :: http_retry_options where
  "scorer_retry_config =
     \<lparr>attempts = 5, exp_base = 7, initial_delay = 1, http_status_codes = [429, 500, 503, 504]\<rparr>"

definition scorer_agent :: llm_agent where
  "scorer_agent =
     \<lparr>agent_name = ''ScorerAgent'',
      llm = \<lparr>model_id = ''gemini-2.5-flash-lite'', retry_options = scorer_retry_config\<rparr>,
      output_key = ''scored_actions'',
      tools = []\<rparr>"

text \<open>\<^verbatim>\<open>agents/agent_6_timing_adk.py\<close>\<close>

definition timing_retry_config :: http_retry_options where
  "timing_retry_config =
     \<lparr>attempts = 5, exp_base = 7, initial_delay = 1, http_status_codes = [429, 500, 503, 504]\<rparr>"

definition timing_agent :: llm_agent where
  "timing_agent =
     \<lparr>agent_name = ''TimingAgent'',
      llm = \<lparr>model_id = ''gemini-2.5-flash-lite'', retry_options = timing_retry_config\<rparr>,
      output_key = ''optimal_timing'',
      tools = [''calculate_send_time'']\<rparr>"

text \<open>\<^verbatim>\<open>agents/agent_7_content_adk.py\<close>\<close>

definition content_retry_config :: http_retry_options where
  "content_retry_config =
     \<lparr>attempts = 5, exp_base = 7, initial_delay = 1, http_status_codes = [429, 500, 503, 504]\<rparr>"

definition content_agent :: llm_agent where
  "content_agent =
     \<lparr>agent_name = ''ContentAgent'',
      llm = \<lparr>model_id = ''gemini-2.5-flash-lite'', retry_options = content_retry_config\<rparr>,
      output_key = ''marketing_content'',
      tools = []\<rparr>"

text \<open>\<^verbatim>\<open>agents/agent_8_approval_adk.py\<close>\<close>

definition approval_retry_config :: http_retry_options where
  "approval_retry_config =
     \<lparr>attempts = 5, exp_base = 7, initial_delay = 1, http_status_codes = [429, 500, 503, 504]\<rparr>"

definition approval_agent :: llm_agent where
  "approval_agent =
     \<lparr>agent_name = ''HumanApprovalAgent'',
      llm = \<lparr>model_id = ''gemini-2.5-flash-lite'', retry_options = approval_retry_config\<rparr>,
      output_key = ''approval_status'',
      tools = [''request_human_approval'']\<rparr>"

text \<open>\<^verbatim>\<open>agents/agent_9_tracker_adk.py\<close>\<close>

definition tracker_retry_config :: http_retry_options where
  "tracker_retry_config =
     \<lparr>attempts = 5, exp_base = 7, initial_delay = 1, http_status_codes = [429, 500, 503, 504]\<rparr>"

definition tracker_agent :: llm_agent where
  "tracker_agent =
     \<lparr>agent_name = ''ResultsTrackerAgent'',
      llm = \<lparr>model_id = ''gemini-2.5-flash-lite'', retry_options = tracker_retry_config\<rparr>,
      output_key = ''tracking_result'',
      tools = [''record_result'']\<rparr>"

text \<open>\<^verbatim>\<open>coordinator_full.py\<close>\<close>

definition cluster_1_discovery :: agent where
  "cluster_1_discovery =
     SequentialAgent ''DiscoveryCluster''
       [Agent proxy_agent, Agent customer_profiler_agent, Agent pattern_matcher_agent,
        Agent action_generator_agent]
       ''Customer discovery and action generation pipeline''"

definition cluster_2_validation :: agent where
  "cluster_2_validation =
     ParallelAgent ''ValidationCluster''
       [Agent validator_agent, Agent scorer_agent]
       ''Parallel validation and scoring of generated actions''"

definition cluster_3_execution :: agent where
  "cluster_3_execution =
     SequentialAgent ''ExecutionCluster''
       [Agent timing_agent, Agent content_agent, Agent approval_agent, Agent tracker_agent]
       ''Execution planning with human approval and tracking''"

definition nba_orchestrator :: agent where
  "nba_orchestrator =
     SequentialAgent ''NbaOrchestrator''
       [cluster_1_discovery, cluster_2_validation, cluster_3_execution]
       ''Complete Next Best Action Orchestrator (10 agents with HITL)''"

text \<open>Reading a pipeline: the kind of a node, its sub-agents, its name, and its leaves in order.\<close>

datatype node_kind = Leaf | Sequential | Parallel

fun kind_of :: "agent \<Rightarrow> node_kind" where
  "kind_of (Agent a) = Leaf"
| "kind_of (SequentialAgent n subs d) = Sequential"
| "kind_of (ParallelAgent n subs d) = Parallel"

fun sub_agents :: "agent \<Rightarrow> agent list" where
  "sub_agents (Agent a) = []"
| "sub_agents (SequentialAgent n subs d) = subs"
| "sub_agents (ParallelAgent n subs d) = subs"

fun node_name :: "agent \<Rightarrow> string" where
  "node_name (Agent a) = agent_name a"
| "node_name (SequentialAgent n subs d) = n"
| "node_name (ParallelAgent n subs d) = n"

fun leaves :: "agent \<Rightarrow> llm_agent list" where
  "leaves (Agent a) = [a]"
| "leaves (SequentialAgent n subs d) = concat (map leaves subs)"
| "leaves (ParallelAgent n subs d) = concat (map leaves subs)"

section \<open>The matching rule and the store, as the specification words them\<close>










text \<open>The scenario key in a result of \<^verbatim>\<open>find_similar_customer_segment\<close>.\<close>

definition matched_segment :: "py_error + dict \<Rightarrow> string option" where
  "matched_segment r =
     (case r of
        Inl e \<Rightarrow> None
      | Inr d \<Rightarrow> (case map_of d ''matched_segment'' of Some (JStr k) \<Rightarrow> Some k | _ \<Rightarrow> None))"

text \<open>
  The successful actions stored for a segment (none when the segment or the file is not
  there), whether a segment is known, and whether a stored action matches an action type:
  the lower-cased type occurs in the lower-cased action name.
\<close>

definition segment_known :: "fs \<Rightarrow> string \<Rightarrow> bool" where
  "segment_known files seg =
     (case files patterns_file of
        Content (JObj d) \<Rightarrow>
          (case dict_get d ''customer_segments'' (JObj []) of
             JObj segs \<Rightarrow> seg \<in> set (map fst segs)
           | _ \<Rightarrow> False)
      | _ \<Rightarrow> False)"

definition stored_actions :: "fs \<Rightarrow> string \<Rightarrow> json list" where
  "stored_actions files seg =
     (case files patterns_file of
        Content (JObj d) \<Rightarrow>
          (case dict_get d ''customer_segments'' (JObj []) of
             JObj segs \<Rightarrow>
               (case map_of segs seg of
                  Some (JObj entry) \<Rightarrow>
                    (case dict_get entry ''successful_actions'' (JArr []) of
                       JArr acts \<Rightarrow> acts
                     | _ \<Rightarrow> [])
                | _ \<Rightarrow> [])
           | _ \<Rightarrow> [])
      | _ \<Rightarrow> [])"

definition action_matches :: "string \<Rightarrow> json \<Rightarrow> bool" where
  "action_matches action_type a =
     (case a of
        JObj entry \<Rightarrow>
          (case dict_get entry ''action'' (JStr []) of
             JStr nm \<Rightarrow> sublist (lower action_type) (lower nm)
           | _ \<Rightarrow> False)
      | _ \<Rightarrow> False)"

text \<open>
  The layout of the patterns file that the tool reads: the top level is an object that
  holds tables and no \<^verbatim>\<open>data\<close> entry of its own, every segment is an object, and its
  successful actions are a list of objects whose \<^verbatim>\<open>action\<close>, where present, is a string. A
  missing or undecodable file counts: the tool answers it with an error dictionary.
\<close>

definition action_entry_ok :: "json \<Rightarrow> bool" where
  "action_entry_ok a =
     (case a of
        JObj entry \<Rightarrow> (case dict_get entry ''action'' (JStr []) of JStr nm \<Rightarrow> True | _ \<Rightarrow> False)
      | _ \<Rightarrow> False)"

definition segment_entry_ok :: "json \<Rightarrow> bool" where
  "segment_entry_ok sv =
     (case sv of
        JObj entry \<Rightarrow>
          (case dict_get entry ''successful_actions'' (JArr []) of
             JArr acts \<Rightarrow> list_all action_entry_ok acts
           | _ \<Rightarrow> False)
      | _ \<Rightarrow> False)"

definition patterns_well_formed :: "fs \<Rightarrow> bool" where
  "patterns_well_formed files =
     (case files patterns_file of
        Missing \<Rightarrow> True
      | Unreadable m \<Rightarrow> False
      | Unparseable m \<Rightarrow> True
      | Content (JObj d) \<Rightarrow>
          map_of d ''data'' = None
          \<and> (case dict_get d ''customer_segments'' (JObj []) of
                JObj segs \<Rightarrow> list_all (\<lambda>kv. segment_entry_ok (snd kv)) segs
              | _ \<Rightarrow> False)
      | Content _ \<Rightarrow> False)"





section \<open>Example inputs\<close>

text \<open>A data directory with a one-record action log and no patterns file.\<close>

definition example_files :: fs where
  "example_files =
     (\<lambda>path. Missing)(actions_file := Content (JArr [JObj [(''customer_id'', JStr ''CUST_00001'')]]))"

text \<open>A tool context that holds an approval.\<close>

definition example_decision :: tool_confirmation where
  "example_decision = \<lparr>hint = ''Approve marketing action?'', confirmed = True, payload = JNull\<rparr>"

definition example_context :: tool_context where
  "example_context =
     \<lparr>tool_confirmation = Some example_decision, requested_confirmations = []\<rparr>"

text \<open>
  A patterns file with one segment, and the profile of scenario D: an abandoned cart in the
  VIP segment.
\<close>

definition example_patterns :: fs where
  "example_patterns =
     (\<lambda>path. Missing)(patterns_file := Content (JObj
        [(''customer_segments'', JObj
           [(''vip_customers'', JObj
              [(''successful_actions'', JArr
                 [JObj [(''action'', JStr ''Exclusive early access email''),
                        (''success_rate'', JFloat (18 / 25)),
                        (''sample_size'', JInt 2)]])])])]))"


text \<open>The data directory after two successful calls that record actions for the segment \<^verbatim>\<open>premium\<close>.\<close>

definition after_two_appends :: fs where
  "after_two_appends =
     snd (record_result ''2025-01-23T09:00:00'' NoFault ''CUST_12346'' ''email_discount''
            ''scheduled'' ''premium'' (JFloat (15 / 2)) (JInt 300) None None
       (snd (record_result ''2025-01-22T19:30:00'' NoFault ''CUST_12345'' ''email_discount''
            ''scheduled'' ''premium'' (JFloat (17 / 2)) (JInt 575) None None example_patterns)))"

text \<open>An action to score.\<close>

definition example_action :: json where
  "example_action =
     JObj [(''action_id'', JStr ''ACT_1''),
           (''action_type'', JStr ''email_discount''),
           (''channel'', JStr ''email''),
           (''estimated_cost'', JInt 30)]"

section \<open>Properties of record_result\<close>

lemma record_result_try_success:
  assumes "record_result_try fault rec st seg sc files = (Inr d, files')"
  shows "\<exists>xs. prior_log files = Some xs \<and> fault = NoFault
           \<and> files' = files(actions_file := Content (JArr (xs @ [JObj rec])))
           \<and> map_of d ''status'' = Some (JStr ''success'')
           \<and> map_of d ''recorded_data'' = Some (JObj rec)
           \<and> map_of d ''total_historical_actions'' = Some (JInt (int (length (xs @ [JObj rec]))))"
proof (cases "files actions_file")
  case Missing
  with assms show ?thesis
    by (cases fault) (auto simp: record_result_try_def prior_log_def write_json_def)
next
  case (Unreadable m)
  with assms show ?thesis
    by (simp add: record_result_try_def read_json_def)
next
  case (Unparseable m)
  with assms show ?thesis
    by (simp add: record_result_try_def read_json_def)
next
  case (Content v)
  with assms show ?thesis
    by (cases v; cases fault)
       (auto simp: record_result_try_def read_json_def prior_log_def write_json_def)
qed

text \<open>The handler: what the \<^verbatim>\<open>try\<close> block returns is returned, what it raises is reported.\<close>

lemma record_result_cases:
  "(\<exists>d files'. record_result_try fault
        (action_record now cid aty st seg roi cost (with_default ch ''email'') (with_default sc ''general''))
        st seg (with_default sc ''general'') files = (Inr d, files')
      \<and> record_result now fault cid aty st seg roi cost ch sc files = (Inr d, files'))
   \<or> (\<exists>e files'. record_result_try fault
        (action_record now cid aty st seg roi cost (with_default ch ''email'') (with_default sc ''general''))
        st seg (with_default sc ''general'') files = (Inl e, files')
      \<and> record_result now fault cid aty st seg roi cost ch sc files =
          (Inr [(''status'', JStr ''error''),
                (''message'', JStr (''Failed to record action: '' @ str_of_error e))], files'))"
proof -
  let ?r = "record_result_try fault
        (action_record now cid aty st seg roi cost (with_default ch ''email'') (with_default sc ''general''))
        st seg (with_default sc ''general'') files"
  obtain a files' where r: "?r = (a, files')" by (cases ?r)
  show ?thesis
  proof (cases a)
    case (Inl e)
    with r show ?thesis by (simp add: record_result_def Let_def)
  next
    case (Inr d)
    with r show ?thesis by (simp add: record_result_def Let_def)
  qed
qed

lemma example_call:
  "record_result ''2025-01-22T19:30:00'' NoFault ''CUST_12345'' ''email_discount'' ''scheduled''
      ''premium'' (JFloat (17 / 2)) (JInt 575) None None example_files =
   (Inr [(''status'', JStr ''success''),
         (''message'', JStr ''Action recorded as SCHEDULED''),
         (''recorded_data'', JObj (action_record ''2025-01-22T19:30:00'' ''CUST_12345''
            ''email_discount'' ''scheduled'' ''premium'' (JFloat (17 / 2)) (JInt 575) ''email'' ''general'')),
         (''total_historical_actions'', JInt 2),
         (''learning_impact'', JStr
            ''This data will improve future predictions for premium customers in general scenarios'')],
    example_files(actions_file := Content (JArr
      [JObj [(''customer_id'', JStr ''CUST_00001'')],
       JObj (action_record ''2025-01-22T19:30:00'' ''CUST_12345''
            ''email_discount'' ''scheduled'' ''premium'' (JFloat (17 / 2)) (JInt 575) ''email'' ''general'')])))"
  by (simp add: record_result_def record_result_try_def example_files_def read_json_def
      write_json_def with_default_def upper_def upper_char_def Let_def actions_file_def)

text \<open>
  C6. A successful call leaves the log as the prior log followed by exactly one new
  record: the old records are all there, unchanged and in their order, the length grows by
  one, no other file changes, and \<^verbatim>\<open>total_historical_actions\<close> is the new length.
\<close>

theorem record_result_appends:
  assumes call: "record_result now fault cid aty st seg roi cost ch sc files = (res, files')"
      and ok: "succeeded res"
  shows "\<exists>xs new d. prior_log files = Some xs
           \<and> files' = files(actions_file := Content (JArr (xs @ [new])))
           \<and> prior_log files' = Some (xs @ [new])
           \<and> take (length xs) (xs @ [new]) = xs
           \<and> length (xs @ [new]) = length xs + 1
           \<and> res = Inr d
           \<and> map_of d ''total_historical_actions'' = Some (JInt (int (length (xs @ [new]))))"
proof -
  let ?rec = "action_record now cid aty st seg roi cost (with_default ch ''email'') (with_default sc ''general'')"
  from record_result_cases [of fault now cid aty st seg roi cost ch sc files]
  show ?thesis
  proof (elim disjE exE conjE)
    fix d f'
    assume t: "record_result_try fault ?rec st seg (with_default sc ''general'') files = (Inr d, f')"
       and r: "record_result now fault cid aty st seg roi cost ch sc files = (Inr d, f')"
    from r call have eq: "res = Inr d" "files' = f'" by simp_all
    from record_result_try_success [OF t] obtain xs where
      xs: "prior_log files = Some xs"
          "f' = files(actions_file := Content (JArr (xs @ [JObj ?rec])))"
          "map_of d ''total_historical_actions'' = Some (JInt (int (length (xs @ [JObj ?rec]))))"
      by blast
    have "prior_log files' = Some (xs @ [JObj ?rec])"
      using xs(2) eq(2) by (simp add: prior_log_def)
    with xs eq show ?thesis by auto
  next
    fix e f'
    assume r: "record_result now fault cid aty st seg roi cost ch sc files =
          (Inr [(''status'', JStr ''error''),
                (''message'', JStr (''Failed to record action: '' @ str_of_error e))], f')"
    with call ok show ?thesis by (auto simp: succeeded_def)
  qed
qed

theorem record_result_appends_witness:
  "succeeded (fst (record_result ''2025-01-22T19:30:00'' NoFault ''CUST_12345'' ''email_discount''
      ''scheduled'' ''premium'' (JFloat (17 / 2)) (JInt 575) None None example_files))
   \<and> (\<exists>new. prior_log (snd (record_result ''2025-01-22T19:30:00'' NoFault ''CUST_12345''
         ''email_discount'' ''scheduled'' ''premium'' (JFloat (17 / 2)) (JInt 575) None None
         example_files)) = Some [JObj [(''customer_id'', JStr ''CUST_00001'')], new])"
proof -
  have ok: "succeeded (Inr [(''status'', JStr ''success''),
         (''message'', JStr ''Action recorded as SCHEDULED''),
         (''recorded_data'', JObj (action_record ''2025-01-22T19:30:00'' ''CUST_12345''
            ''email_discount'' ''scheduled'' ''premium'' (JFloat (17 / 2)) (JInt 575) ''email'' ''general'')),
         (''total_historical_actions'', JInt 2),
         (''learning_impact'', JStr
            ''This data will improve future predictions for premium customers in general scenarios'')])"
    by (simp add: succeeded_def)
  have prior: "prior_log example_files = Some [JObj [(''customer_id'', JStr ''CUST_00001'')]]"
    by (simp add: prior_log_def example_files_def)
  from record_result_appends [OF example_call ok] prior
  have "\<exists>new. prior_log (example_files(actions_file := Content (JArr
      [JObj [(''customer_id'', JStr ''CUST_00001'')],
       JObj (action_record ''2025-01-22T19:30:00'' ''CUST_12345''
            ''email_discount'' ''scheduled'' ''premium'' (JFloat (17 / 2)) (JInt 575) ''email'' ''general'')])))
        = Some [JObj [(''customer_id'', JStr ''CUST_00001'')], new]"
    by auto
  with ok show ?thesis by (simp add: example_call)
qed

text \<open>
  C7. \<^verbatim>\<open>record_result\<close> returns a dictionary for every input and never lets an exception
  out. The dictionary either has status \<^verbatim>\<open>success\<close> and holds the record, which is then the
  last one of the log, or it has status \<^verbatim>\<open>error\<close> and its message ends with the text of the
  exception that the \<^verbatim>\<open>try\<close> block raised. A failing write and a log that cannot be loaded
  as a list are always reported as an error.
\<close>

theorem record_result_never_raises:
  "\<exists>d files'.
      record_result now fault cid aty st seg roi cost ch sc files = (Inr d, files')
    \<and> ((map_of d ''status'' = Some (JStr ''success'')
          \<and> map_of d ''recorded_data'' = Some (JObj (action_record now cid aty st seg roi cost
                (with_default ch ''email'') (with_default sc ''general'')))
          \<and> (\<exists>xs. prior_log files = Some xs
                \<and> prior_log files' = Some (xs @ [JObj (action_record now cid aty st seg roi cost
                      (with_default ch ''email'') (with_default sc ''general''))])))
        \<or> (\<exists>e. record_result_try fault
                  (action_record now cid aty st seg roi cost
                     (with_default ch ''email'') (with_default sc ''general''))
                  st seg (with_default sc ''general'') files = (Inl e, files')
              \<and> d = [(''status'', JStr ''error''),
                     (''message'', JStr (''Failed to record action: '' @ str_of_error e))]))
    \<and> (if fault = NoFault \<and> prior_log files \<noteq> None
        then map_of d ''status'' = Some (JStr ''success'')
        else map_of d ''status'' = Some (JStr ''error''))"
proof -
  let ?rec = "action_record now cid aty st seg roi cost (with_default ch ''email'') (with_default sc ''general'')"
  from record_result_cases [of fault now cid aty st seg roi cost ch sc files]
  show ?thesis
  proof (elim disjE exE conjE)
    fix d f'
    assume t: "record_result_try fault ?rec st seg (with_default sc ''general'') files = (Inr d, f')"
       and r: "record_result now fault cid aty st seg roi cost ch sc files = (Inr d, f')"
    from record_result_try_success [OF t] obtain xs where
      xs: "prior_log files = Some xs" "fault = NoFault"
          "f' = files(actions_file := Content (JArr (xs @ [JObj ?rec])))"
          "map_of d ''status'' = Some (JStr ''success'')"
          "map_of d ''recorded_data'' = Some (JObj ?rec)"
      by blast
    have "prior_log f' = Some (xs @ [JObj ?rec])"
      using xs(3) by (simp add: prior_log_def)
    with xs r show ?thesis by auto
  next
    fix e f'
    assume t: "record_result_try fault ?rec st seg (with_default sc ''general'') files = (Inl e, f')"
       and r: "record_result now fault cid aty st seg roi cost ch sc files =
          (Inr [(''status'', JStr ''error''),
                (''message'', JStr (''Failed to record action: '' @ str_of_error e))], f')"
    have "\<not> (fault = NoFault \<and> prior_log files \<noteq> None)"
    proof
      assume a: "fault = NoFault \<and> prior_log files \<noteq> None"
      then obtain xs where "prior_log files = Some xs" by auto
      with a t show False
        by (cases "files actions_file")
           (auto simp: record_result_try_def prior_log_def read_json_def write_json_def
                 split: json.splits)
    qed
    with t r show ?thesis by auto
  qed
qed

text \<open>
  C10. The record prepared by any call has \<^verbatim>\<open>approved_by\<close> equal to \<^verbatim>\<open>human\<close> exactly when
  \<^verbatim>\<open>action_status\<close> is the string \<^verbatim>\<open>scheduled\<close>, and equal to \<^verbatim>\<open>rejected\<close> for every other
  status; when the call succeeds this record is the one reported and the one appended.
\<close>

theorem record_result_approved_by:
  "(map_of (action_record now cid aty st seg roi cost (with_default ch ''email'')
        (with_default sc ''general'')) ''approved_by'' = Some (JStr ''human'')
      \<longleftrightarrow> st = ''scheduled'')
   \<and> (st \<noteq> ''scheduled'' \<longrightarrow>
        map_of (action_record now cid aty st seg roi cost (with_default ch ''email'')
          (with_default sc ''general'')) ''approved_by'' = Some (JStr ''rejected''))
   \<and> (succeeded (fst (record_result now fault cid aty st seg roi cost ch sc files)) \<longrightarrow>
        (\<exists>d xs. fst (record_result now fault cid aty st seg roi cost ch sc files) = Inr d
           \<and> map_of d ''recorded_data'' = Some (JObj (action_record now cid aty st seg roi cost
                (with_default ch ''email'') (with_default sc ''general'')))
           \<and> prior_log (snd (record_result now fault cid aty st seg roi cost ch sc files)) =
               Some (xs @ [JObj (action_record now cid aty st seg roi cost
                (with_default ch ''email'') (with_default sc ''general''))])))"
proof (intro conjI impI)
  let ?rec = "action_record now cid aty st seg roi cost (with_default ch ''email'') (with_default sc ''general'')"
  show "(map_of ?rec ''approved_by'' = Some (JStr ''human'')) = (st = ''scheduled'')"
    by (simp add: action_record_def)
  show "map_of ?rec ''approved_by'' = Some (JStr ''rejected'')" if "st \<noteq> ''scheduled''"
    using that by (simp add: action_record_def)
  show "\<exists>d xs. fst (record_result now fault cid aty st seg roi cost ch sc files) = Inr d
           \<and> map_of d ''recorded_data'' = Some (JObj ?rec)
           \<and> prior_log (snd (record_result now fault cid aty st seg roi cost ch sc files)) =
               Some (xs @ [JObj ?rec])"
    if ok: "succeeded (fst (record_result now fault cid aty st seg roi cost ch sc files))"
  proof -
    from record_result_cases [of fault now cid aty st seg roi cost ch sc files]
    show ?thesis
    proof (elim disjE exE conjE)
      fix d f'
      assume t: "record_result_try fault ?rec st seg (with_default sc ''general'') files = (Inr d, f')"
         and r: "record_result now fault cid aty st seg roi cost ch sc files = (Inr d, f')"
      from record_result_try_success [OF t] obtain xs where
        xs: "f' = files(actions_file := Content (JArr (xs @ [JObj ?rec])))"
            "map_of d ''recorded_data'' = Some (JObj ?rec)"
        by blast
      have "prior_log f' = Some (xs @ [JObj ?rec])"
        using xs(1) by (simp add: prior_log_def)
      with xs r show ?thesis by auto
    next
      fix e f'
      assume r: "record_result now fault cid aty st seg roi cost ch sc files =
            (Inr [(''status'', JStr ''error''),
                  (''message'', JStr (''Failed to record action: '' @ str_of_error e))], f')"
      with ok show ?thesis by (simp add: succeeded_def)
    qed
  qed
qed

theorem record_result_approved_by_witness:
  "map_of (action_record ''2025-01-22T19:30:00'' ''CUST_12345'' ''email_discount'' ''cancelled''
        ''premium'' (JFloat (17 / 2)) (JInt 575) ''email'' ''general'') ''approved_by''
     = Some (JStr ''rejected'')
   \<and> succeeded (fst (record_result ''2025-01-22T19:30:00'' NoFault ''CUST_12345''
        ''email_discount'' ''scheduled'' ''premium'' (JFloat (17 / 2)) (JInt 575) None None
        example_files))
   \<and> (\<exists>xs. prior_log (snd (record_result ''2025-01-22T19:30:00'' NoFault ''CUST_12345''
        ''email_discount'' ''scheduled'' ''premium'' (JFloat (17 / 2)) (JInt 575) None None
        example_files)) =
        Some (xs @ [JObj (action_record ''2025-01-22T19:30:00'' ''CUST_12345'' ''email_discount''
          ''scheduled'' ''premium'' (JFloat (17 / 2)) (JInt 575) ''email'' ''general'')]))"
proof -
  have ne: "''cancelled'' \<noteq> ''scheduled''" by simp
  have ok: "succeeded (fst (record_result ''2025-01-22T19:30:00'' NoFault ''CUST_12345''
        ''email_discount'' ''scheduled'' ''premium'' (JFloat (17 / 2)) (JInt 575) None None
        example_files))"
    by (simp add: example_call succeeded_def)
  from record_result_approved_by [of "''2025-01-22T19:30:00''" "''CUST_12345''"
      "''email_discount''" "''cancelled''" "''premium''" "JFloat (17 / 2)" "JInt 575" None None]
    ne
  have a: "map_of (action_record ''2025-01-22T19:30:00'' ''CUST_12345'' ''email_discount''
        ''cancelled'' ''premium'' (JFloat (17 / 2)) (JInt 575) ''email'' ''general'') ''approved_by''
     = Some (JStr ''rejected'')"
    by (simp add: with_default_def)
  from record_result_approved_by [of "''2025-01-22T19:30:00''" "''CUST_12345''"
      "''email_discount''" "''scheduled''" "''premium''" "JFloat (17 / 2)" "JInt 575" None None
      NoFault example_files]
    ok
  have b: "\<exists>xs. prior_log (snd (record_result ''2025-01-22T19:30:00'' NoFault ''CUST_12345''
        ''email_discount'' ''scheduled'' ''premium'' (JFloat (17 / 2)) (JInt 575) None None
        example_files)) =
        Some (xs @ [JObj (action_record ''2025-01-22T19:30:00'' ''CUST_12345'' ''email_discount''
          ''scheduled'' ''premium'' (JFloat (17 / 2)) (JInt 575) ''email'' ''general'')])"
    by (auto simp: with_default_def)
  from a ok b show ?thesis by blast
qed

section \<open>Properties of the pipeline and the agents\<close>

lemmas agent_defs =
  proxy_agent_def customer_profiler_agent_def pattern_matcher_agent_def
  action_generator_agent_def validator_agent_def scorer_agent_def timing_agent_def
  content_agent_def approval_agent_def tracker_agent_def

lemmas retry_config_defs =
  proxy_retry_config_def profiler_retry_config_def pattern_retry_config_def
  generator_retry_config_def validator_retry_config_def scorer_retry_config_def
  timing_retry_config_def content_retry_config_def approval_retry_config_def
  tracker_retry_config_def

lemmas cluster_defs =
  nba_orchestrator_def cluster_1_discovery_def cluster_2_validation_def cluster_3_execution_def

text \<open>
  C3. The top-level pipeline is a sequential node with three children, in this order: the
  sequential discovery cluster (proxy, profiler, pattern matcher, action generator), the
  parallel validation cluster (validator, scorer) and the sequential execution cluster
  (timing, content, approval, tracker). Every grandchild is a leaf, the approval leaf is the
  agent that owns the approval tool, and the parallel cluster is the second of the three.
\<close>

theorem nba_orchestrator_structure:
  "kind_of nba_orchestrator = Sequential
   \<and> sub_agents nba_orchestrator = [cluster_1_discovery, cluster_2_validation, cluster_3_execution]
   \<and> map kind_of (sub_agents nba_orchestrator) = [Sequential, Parallel, Sequential]
   \<and> sub_agents cluster_1_discovery =
        [Agent proxy_agent, Agent customer_profiler_agent, Agent pattern_matcher_agent,
         Agent action_generator_agent]
   \<and> sub_agents cluster_2_validation = [Agent validator_agent, Agent scorer_agent]
   \<and> sub_agents cluster_3_execution =
        [Agent timing_agent, Agent content_agent, Agent approval_agent, Agent tracker_agent]
   \<and> map (\<lambda>c. map node_name (sub_agents c)) (sub_agents nba_orchestrator) =
        [[''ProxyCustomerAgent'', ''CustomerProfilerAgent'', ''PatternMatcherAgent'',
          ''ActionGeneratorAgent''],
         [''ValidatorAgent'', ''ScorerAgent''],
         [''TimingAgent'', ''ContentAgent'', ''HumanApprovalAgent'', ''ResultsTrackerAgent'']]
   \<and> map (\<lambda>c. map kind_of (sub_agents c)) (sub_agents nba_orchestrator) =
        [[Leaf, Leaf, Leaf, Leaf], [Leaf, Leaf], [Leaf, Leaf, Leaf, Leaf]]
   \<and> tools approval_agent = [''request_human_approval'']
   \<and> tools tracker_agent = [''record_result'']"
  by (simp add: cluster_defs agent_defs)

text \<open>
  C5. The pipeline has ten agents, with ten different names, and each of them carries the
  same retry options: 5 attempts, exponential base 7, initial delay 1, and the status codes
  429, 500, 503 and 504, no others.
\<close>

theorem agents_retry_policy:
  "length (leaves nba_orchestrator) = 10
   \<and> distinct (map agent_name (leaves nba_orchestrator))
   \<and> map (\<lambda>a. retry_options (llm a)) (leaves nba_orchestrator) =
        replicate 10 \<lparr>attempts = 5, exp_base = 7, initial_delay = 1,
                      http_status_codes = [429, 500, 503, 504]\<rparr>
   \<and> map (\<lambda>a. set (http_status_codes (retry_options (llm a)))) (leaves nba_orchestrator) =
        replicate 10 {429, 500, 503, 504}"
  by (simp add: cluster_defs agent_defs retry_config_defs numeral_eq_Suc)

section \<open>Properties of the approval tool\<close>

text \<open>
  C4. When the tool context already holds a decision, \<^verbatim>\<open>request_human_approval\<close> returns
  the dictionary fixed by that decision alone (\<^verbatim>\<open>approved\<close> is its \<^verbatim>\<open>confirmed\<close> flag,
  whatever the three text arguments are), leaves the context as it is, so that no
  confirmation is requested, prints nothing, and a second call returns the same.
\<close>

theorem request_human_approval_decided:
  assumes "tool_confirmation ctx = Some decision"
  shows "request_human_approval action_summary estimated_cost expected_roi (ctx, out) =
           ((if confirmed decision
             then [(''status'', JStr ''approved''),
                   (''message'', JStr ''Action approved by human reviewer''),
                   (''approved'', JBool True)]
             else [(''status'', JStr ''rejected''),
                   (''message'', JStr ''Action rejected by human reviewer''),
                   (''approved'', JBool False)]), ctx, out)
       \<and> map_of (fst (request_human_approval action_summary estimated_cost expected_roi (ctx, out)))
            ''approved'' = Some (JBool (confirmed decision))
       \<and> requested_confirmations
            (fst (snd (request_human_approval action_summary estimated_cost expected_roi (ctx, out))))
           = requested_confirmations ctx
       \<and> request_human_approval action_summary estimated_cost expected_roi
            (snd (request_human_approval action_summary estimated_cost expected_roi (ctx, out)))
           = request_human_approval action_summary estimated_cost expected_roi (ctx, out)"
  using assms by (simp add: request_human_approval_def)

theorem request_human_approval_decided_witness:
  "tool_confirmation example_context = Some example_decision
   \<and> request_human_approval ''Email 15% discount'' ''575'' ''8.5'' (example_context, []) =
       ([(''status'', JStr ''approved''),
         (''message'', JStr ''Action approved by human reviewer''),
         (''approved'', JBool True)], example_context, [])"
proof -
  have h: "tool_confirmation example_context = Some example_decision"
    by (simp add: example_context_def)
  from request_human_approval_decided [OF h, of "''Email 15% discount''" "''575''" "''8.5''" "[]"]
  show ?thesis using h by (simp add: example_decision_def)
qed

section \<open>Properties of the historical patterns tool\<close>









text \<open>
  Outside the hypothesis on the counters the comparison itself fails: a profile whose
  \<^verbatim>\<open>days_since_last_purchase\<close> is a string, and which no earlier rule matches, raises
  TypeError.
\<close>

lemma find_similar_customer_segment_string_counter:
  "find_similar_customer_segment example_patterns
     (Decodes (JObj [(''days_since_last_purchase'', JStr ''90'')])) =
   Inl (not_supported ''>'' (JStr ''90'') ''int'')"
  by (simp add: find_similar_customer_segment_def determine_segment_def dict_get_def py_gt_def)

lemma first_matching_rate_default:
  assumes "list_all action_entry_ok acts"
      and "\<not> list_ex (action_matches action_type) acts"
  shows "first_matching_rate action_type acts = Inr (JFloat (1 / 2))"
  using assms
proof (induction acts)
  case Nil
  then show ?case by simp
next
  case (Cons a acts)
  from Cons.prems(1) obtain entry nm where
    a: "a = JObj entry" and nm: "dict_get entry ''action'' (JStr []) = JStr nm"
    by (auto simp: action_entry_ok_def split: json.splits)
  from Cons.prems(2) a nm have "\<not> sublist (lower action_type) (lower nm)"
    by (simp add: action_matches_def)
  moreover from Cons have "first_matching_rate action_type acts = Inr (JFloat (1 / 2))"
    by simp
  ultimately show ?case using a nm by simp
qed

lemma segment_entry_of_map_of:
  assumes "list_all (\<lambda>kv. segment_entry_ok (snd kv)) segs" and "map_of segs seg = Some sv"
  shows "segment_entry_ok sv"
proof -
  from assms(2) have "(seg, sv) \<in> set segs" by (rule map_of_SomeD)
  with assms(1) show ?thesis by (auto simp: list_all_iff)
qed

lemma rate_of_segment_entry:
  assumes ok: "segment_entry_ok sv"
      and nomatch: "\<And>entry acts. sv = JObj entry \<Longrightarrow>
             dict_get entry ''successful_actions'' (JArr []) = JArr acts \<Longrightarrow>
             \<not> list_ex (action_matches action_type) acts"
  shows "(case py_get sv ''successful_actions'' (JArr []) of
            Inl e \<Rightarrow> Inl e
          | Inr successful_actions \<Rightarrow>
              (case py_iter successful_actions of
                 Inl e \<Rightarrow> Inl e
               | Inr actions \<Rightarrow> first_matching_rate action_type actions)) = Inr (JFloat (1 / 2))"
proof -
  from ok obtain entry acts where sv: "sv = JObj entry"
    and acts: "dict_get entry ''successful_actions'' (JArr []) = JArr acts"
    and all: "list_all action_entry_ok acts"
    by (auto simp: segment_entry_ok_def split: json.splits)
  from first_matching_rate_default [OF all nomatch [OF sv acts]] sv acts
  show ?thesis by simp
qed

text \<open>
  C8. On a patterns file of the layout the tool reads, \<^verbatim>\<open>get_action_success_rate\<close> returns
  the default rate 0.5, and does not fail, for every action type and segment such that the
  segment is not known or none of the successful actions stored for it matches the type.
\<close>

theorem get_action_success_rate_default:
  assumes wf: "patterns_well_formed files"
      and none: "\<not> segment_known files seg
                 \<or> \<not> list_ex (action_matches action_type) (stored_actions files seg)"
  shows "get_action_success_rate files action_type seg = Inr (JFloat (1 / 2))"
proof (cases "files patterns_file")
  case Missing
  then show ?thesis
    by (cases seg)
       (simp_all add: get_action_success_rate_def query_historical_patterns_def query_try_def
          read_json_def)
next
  case (Unreadable m)
  with wf show ?thesis by (simp add: patterns_well_formed_def)
next
  case (Unparseable m)
  then show ?thesis
    by (cases seg)
       (simp_all add: get_action_success_rate_def query_historical_patterns_def query_try_def
          read_json_def)
next
  case (Content v)
  with wf obtain d segs where v: "v = JObj d"
    and nodata: "map_of d ''data'' = None"
    and segs: "dict_get d ''customer_segments'' (JObj []) = JObj segs"
    and all: "list_all (\<lambda>kv. segment_entry_ok (snd kv)) segs"
    by (auto simp: patterns_well_formed_def split: json.splits)
  show ?thesis
  proof (cases seg)
    case Nil
    have q: "query_historical_patterns files (Some []) ''all'' = Inr (JObj d)"
      using Content v by (simp add: query_historical_patterns_def query_try_def read_json_def)
    show ?thesis
    proof (cases "''error'' \<in> fst ` set d")
      case True
      with q Nil show ?thesis by (simp add: get_action_success_rate_def)
    next
      case False
      with q Nil nodata show ?thesis
        by (simp add: get_action_success_rate_def dict_get_def)
    qed
  next
    case (Cons c cs)
    show ?thesis
    proof (cases "map_of segs seg")
      case None
      then have "seg \<notin> fst ` set segs" by (simp add: map_of_eq_None_iff)
      with Content v segs Cons show ?thesis
        by (simp add: get_action_success_rate_def query_historical_patterns_def query_try_def
            read_json_def)
    next
      case (Some sv)
      then have known: "seg \<in> fst ` set segs"
        by (metis map_of_eq_None_iff option.distinct(1))
      with Content v segs have "segment_known files seg"
        by (simp add: segment_known_def)
      with none have nm: "\<not> list_ex (action_matches action_type) (stored_actions files seg)"
        by simp
      have q: "query_historical_patterns files (Some seg) ''all'' =
                 Inr (JObj [(''segment'', JStr seg), (''data'', sv)])"
        using Content v segs Cons Some known
        by (simp add: query_historical_patterns_def query_try_def read_json_def)
      have "\<not> list_ex (action_matches action_type) acts"
        if "sv = JObj entry" "dict_get entry ''successful_actions'' (JArr []) = JArr acts"
        for entry acts
        using nm that Content v segs Some by (simp add: stored_actions_def)
      from rate_of_segment_entry [OF segment_entry_of_map_of [OF all Some] this] q
      show ?thesis
        by (simp add: get_action_success_rate_def dict_get_def)
    qed
  qed
qed

lemma example_patterns_well_formed: "patterns_well_formed example_patterns"
  by (simp add: patterns_well_formed_def example_patterns_def dict_get_def segment_entry_ok_def
      action_entry_ok_def)

theorem get_action_success_rate_default_witness:
  "patterns_well_formed example_patterns
   \<and> \<not> segment_known example_patterns ''premium''
   \<and> get_action_success_rate example_patterns ''email'' ''premium'' = Inr (JFloat (1 / 2))
   \<and> segment_known example_patterns ''vip_customers''
   \<and> \<not> list_ex (action_matches ''SMS'') (stored_actions example_patterns ''vip_customers'')
   \<and> get_action_success_rate example_patterns ''SMS'' ''vip_customers'' = Inr (JFloat (1 / 2))"
proof -
  have h1: "\<not> segment_known example_patterns ''premium''"
    by (simp add: segment_known_def example_patterns_def dict_get_def)
  have h2: "segment_known example_patterns ''vip_customers''"
    by (simp add: segment_known_def example_patterns_def dict_get_def)
  have h3: "\<not> list_ex (action_matches ''SMS'') (stored_actions example_patterns ''vip_customers'')"
    by (simp add: stored_actions_def example_patterns_def dict_get_def action_matches_def
        lower_def lower_char_def sublist_code prefix_code)
  from get_action_success_rate_default [OF example_patterns_well_formed, of "''premium''" "''email''"]
       get_action_success_rate_default [OF example_patterns_well_formed, of "''vip_customers''" "''SMS''"]
       h1 h2 h3 example_patterns_well_formed
  show ?thesis by simp
qed

text \<open>A stored action that matches is found, whatever the letter case of the type.\<close>

lemma get_action_success_rate_example_match:
  "get_action_success_rate example_patterns ''EMAIL'' ''vip_customers'' = Inr (JFloat (18 / 25))"
  by (simp add: get_action_success_rate_def query_historical_patterns_def query_try_def
      read_json_def example_patterns_def dict_get_def lower_def lower_char_def sublist_code
      prefix_code)

section \<open>The tracker and the patterns query\<close>

text \<open>
  \<^verbatim>\<open>record_result\<close> writes the actions file only, and the patterns query reads the
  patterns file only: no call of the first changes an answer of the second.
\<close>

lemma files_distinct: "actions_file \<noteq> patterns_file"
  by (simp add: actions_file_def patterns_file_def)

lemma record_result_try_frame:
  "snd (record_result_try fault rec st seg sc files) patterns_file = files patterns_file"
  using files_distinct
  by (auto simp: record_result_try_def write_json_def split: sum.splits write_fault.splits prod.splits)

lemma record_result_frame:
  "snd (record_result now fault cid aty st seg roi cost ch sc files) patterns_file =
     files patterns_file"
proof -
  let ?t = "record_result_try fault
        (action_record now cid aty st seg roi cost (with_default ch ''email'') (with_default sc ''general''))
        st seg (with_default sc ''general'') files"
  have "snd (record_result now fault cid aty st seg roi cost ch sc files) = snd ?t"
    by (cases ?t; cases "fst ?t") (auto simp: record_result_def Let_def)
  then show ?thesis by (simp add: record_result_try_frame)
qed

lemma query_reads_patterns_only:
  assumes "files' patterns_file = files patterns_file"
  shows "query_historical_patterns files' s dt = query_historical_patterns files s dt"
  using assms by (simp add: query_historical_patterns_def query_try_def read_json_def)

lemma record_result_query_unchanged:
  "query_historical_patterns (snd (record_result now fault cid aty st seg roi cost ch sc files)) s dt
     = query_historical_patterns files s dt
   \<and> get_action_success_rate (snd (record_result now fault cid aty st seg roi cost ch sc files)) a s'
     = get_action_success_rate files a s'"
proof -
  have "snd (record_result now fault cid aty st seg roi cost ch sc files) patterns_file =
          files patterns_file"
    by (rule record_result_frame)
  then show ?thesis
    by (simp add: get_action_success_rate_def query_historical_patterns_def query_try_def
        read_json_def)
qed

lemma after_two_appends_log:
  "prior_log after_two_appends =
     Some [JObj (action_record ''2025-01-22T19:30:00'' ''CUST_12345'' ''email_discount''
              ''scheduled'' ''premium'' (JFloat (17 / 2)) (JInt 575) ''email'' ''general''),
           JObj (action_record ''2025-01-23T09:00:00'' ''CUST_12346'' ''email_discount''
              ''scheduled'' ''premium'' (JFloat (15 / 2)) (JInt 300) ''email'' ''general'')]"
  by (simp add: after_two_appends_def record_result_def record_result_try_def
      example_patterns_def read_json_def write_json_def with_default_def Let_def prior_log_def
      actions_file_def patterns_file_def)

text \<open>
  C2. A query for a segment does not reflect the records appended for it. Two calls
  succeed and the log holds their two records for the segment \<^verbatim>\<open>premium\<close>, yet the
  query for that segment answers as before the calls, that the segment is not found, and
  the success rate is still the default: the sample the query reports has not grown with
  the appends.
\<close>

theorem appends_not_reflected_in_query:
  "(\<exists>r1 r2. prior_log example_patterns = Some []
       \<and> prior_log after_two_appends = Some [JObj r1, JObj r2]
       \<and> map_of r1 ''customer_segment'' = Some (JStr ''premium'')
       \<and> map_of r2 ''customer_segment'' = Some (JStr ''premium''))
   \<and> query_historical_patterns after_two_appends (Some ''premium'') ''all'' =
       Inr (JObj [(''error'', JStr (''Segment '' @ quote ''premium'' @ '' not found'')),
                  (''available_segments'', JArr [JStr ''vip_customers''])])
   \<and> query_historical_patterns after_two_appends (Some ''premium'') ''all'' =
       query_historical_patterns example_patterns (Some ''premium'') ''all''
   \<and> get_action_success_rate after_two_appends ''email_discount'' ''premium'' = Inr (JFloat (1 / 2))"
proof -
  have same: "after_two_appends patterns_file = example_patterns patterns_file"
    by (simp add: after_two_appends_def record_result_frame)
  have q0: "query_historical_patterns example_patterns (Some ''premium'') ''all'' =
       Inr (JObj [(''error'', JStr (''Segment '' @ quote ''premium'' @ '' not found'')),
                  (''available_segments'', JArr [JStr ''vip_customers''])])"
    by (simp add: query_historical_patterns_def query_try_def read_json_def
        example_patterns_def dict_get_def)
  have q: "query_historical_patterns after_two_appends (Some ''premium'') ''all'' =
       query_historical_patterns example_patterns (Some ''premium'') ''all''"
    using same by (simp add: query_historical_patterns_def query_try_def read_json_def)
  have r: "get_action_success_rate after_two_appends ''email_discount'' ''premium'' = Inr (JFloat (1 / 2))"
    by (simp add: get_action_success_rate_def q q0)
  have p0: "prior_log example_patterns = Some []"
    by (simp add: prior_log_def example_patterns_def actions_file_def patterns_file_def)
  from after_two_appends_log p0 q q0 r show ?thesis
    by (simp add: action_record_def)
qed

section \<open>Properties of the scoring\<close>














lemma after_two_appends_actions:
  "after_two_appends actions_file =
     Content (JArr
       [JObj (action_record ''2025-01-22T19:30:00'' ''CUST_12345'' ''email_discount''
              ''scheduled'' ''premium'' (JFloat (17 / 2)) (JInt 575) ''email'' ''general''),
        JObj (action_record ''2025-01-23T09:00:00'' ''CUST_12346'' ''email_discount''
              ''scheduled'' ''premium'' (JFloat (15 / 2)) (JInt 300) ''email'' ''general'')])"
  by (simp add: after_two_appends_def record_result_def record_result_try_def
      example_patterns_def read_json_def write_json_def with_default_def Let_def
      actions_file_def patterns_file_def)


text \<open>
  The score of the example: two logged actions of its type with no recorded return give the
  base score 1, the low cost adds 1 and the email channel adds 0.5.
\<close>

lemma score_action_example:
  "score_action after_two_appends example_action =
     Inr [(''action_id'', JStr ''ACT_1''),
          (''roi_score'', JFloat (5 / 2)),
          (''predicted_roi'', JFloat 0),
          (''conversion_probability'', JFloat 0),
          (''confidence'', JStr ''medium'')]"
  by (simp add: score_action_def get_action_performance_by_type_def get_historical_actions_def
      read_json_def after_two_appends_actions action_record_def example_action_def dict_get_def
      Let_def percentage_def py_truediv_def py_min_def py_max_def adjust_for_cost_def
      adjust_for_channel_def py_lt_def py_gt_def round_half_even_def add_json_def)

end
